theory Spec2Isabelle
  imports Complex_Main "HOL-Library.Code_Target_Numeral"
begin

section \<open>Data model of main.py\<close>

text \<open>
  The service of \<^verbatim>\<open>main.py\<close>: a table of processed agent data behind CRUD handlers, a
  registry of WebSocket listeners per user id, and a dispatcher that the create handler
  calls for every row it has committed. Handlers are functions from the state to a result
  and the new state; an exception is the result \<open>Inl\<close>.
\<close>

text \<open>
  Python's \<^verbatim>\<open>datetime\<close>: the calendar fields, and the offset from UTC in microseconds
  when the value is timezone-aware.
\<close>

record datetime =
  year :: nat
  month :: nat
  day :: nat
  hour :: nat
  minute :: nat
  second :: nat
  microsecond :: nat
  tzoffset :: "int option"

text \<open>
  The pydantic models (lines 53-85). The fields \<^verbatim>\<open>x\<close>, \<^verbatim>\<open>y\<close>, \<^verbatim>\<open>z\<close>,
  \<^verbatim>\<open>latitude\<close> and \<^verbatim>\<open>longitude\<close> carry a prefix here, because a record field is a
  constant of the theory. Python floats are carried around and never computed with; they
  are modelled as reals.
\<close>

record AccelerometerData =
  acc_x :: real
  acc_y :: real
  acc_z :: real

record GpsData =
  gps_latitude :: real
  gps_longitude :: real

record AgentData =
  user_id :: int
  accelerometer :: AccelerometerData
  gps :: GpsData
  timestamp :: datetime

record ProcessedAgentData =
  road_state :: string
  agent_data :: AgentData

text \<open>The table row \<^verbatim>\<open>ProcessedAgentDataDB\<close> (lines 24-35).\<close>

record ProcessedAgentDataDB =
  db_id :: int
  db_road_state :: string
  db_user_id :: int
  db_x :: real
  db_y :: real
  db_z :: real
  db_latitude :: real
  db_longitude :: real
  db_timestamp :: datetime

text \<open>Every exception the modelled code can raise.\<close>

datatype error =
  ValueError
  | TypeError
  | AttributeError
  | KeyError
  | HTTPException nat string
  | RequestValidationError
  | SQLAlchemyError
  | ConnectionClosed

section \<open>Timestamp validation\<close>

text \<open>
  \<^verbatim>\<open>datetime.fromisoformat\<close> is the standard library's. The parser below follows the
  format documented for it, \<^verbatim>\<open>YYYY-MM-DD[*HH[:MM[:SS[.fff[fff]]]][+HH:MM[:SS[.ffffff]]]]\<close>,
  and the range checks of the \<^verbatim>\<open>datetime\<close> constructor. Later Python versions accept
  further ISO 8601 spellings, which this parser rejects.
\<close>

definition is_digit :: "char \<Rightarrow> bool" where
  "is_digit c = (48 \<le> (of_char c :: nat) \<and> (of_char c :: nat) \<le> 57)"

definition digits :: "string \<Rightarrow> nat option" where
  "digits s =
     (if s \<noteq> [] \<and> list_all is_digit s
      then Some (foldl (\<lambda>a c. 10 * a + ((of_char c :: nat) - 48)) 0 s)
      else None)"

definition is_leap :: "nat \<Rightarrow> bool" where
  "is_leap y = (y mod 4 = 0 \<and> (y mod 100 \<noteq> 0 \<or> y mod 400 = 0))"

definition days_in_month :: "nat \<Rightarrow> nat \<Rightarrow> nat" where
  "days_in_month y m =
     (if m = 2 then (if is_leap y then 29 else 28)
      else if m = 4 \<or> m = 6 \<or> m = 9 \<or> m = 11 then 30 else 31)"

definition parse_isoformat_date :: "string \<Rightarrow> (nat \<times> nat \<times> nat) option" where
  "parse_isoformat_date s =
     (if length s \<noteq> 10 \<or> s ! 4 \<noteq> CHR ''-'' \<or> s ! 7 \<noteq> CHR ''-'' then None
      else case (digits (take 4 s), digits (take 2 (drop 5 s)), digits (drop 8 s)) of
             (Some y, Some m, Some d) \<Rightarrow> Some (y, m, d)
           | _ \<Rightarrow> None)"

text \<open>\<^verbatim>\<open>HH[:MM[:SS[.fff[fff]]]]\<close>: hours, minutes, seconds, microseconds.\<close>

definition parse_hh_mm_ss_ff :: "string \<Rightarrow> (nat \<times> nat \<times> nat \<times> nat) option" where
  "parse_hh_mm_ss_ff t =
     (let n = length t;
          hh = digits (take 2 t);
          mm = (if n = 2 then Some 0
                else if t ! 2 = CHR '':'' then digits (take 2 (drop 3 t)) else None);
          ss = (if n \<le> 5 then Some 0
                else if t ! 5 = CHR '':'' then digits (take 2 (drop 6 t)) else None);
          ff = (if n \<le> 8 then Some 0
                else if t ! 8 \<noteq> CHR ''.'' then None
                else if n = 12 then map_option (\<lambda>v. v * 1000) (digits (drop 9 t))
                else digits (drop 9 t))
      in if n \<notin> {2, 5, 8, 12, 15} then None
         else case (hh, mm, ss, ff) of
                (Some h, Some m, Some s, Some f) \<Rightarrow> Some (h, m, s, f)
              | _ \<Rightarrow> None)"

definition is_sign :: "char \<Rightarrow> bool" where
  "is_sign c = (c = CHR ''+'' \<or> c = CHR ''-'')"

text \<open>The offset \<^verbatim>\<open>+HH:MM[:SS[.ffffff]]\<close>, in microseconds, strictly inside one day.\<close>

definition parse_tz :: "string \<Rightarrow> int option" where
  "parse_tz z =
     (if length z \<notin> {6, 9, 16} then None
      else case parse_hh_mm_ss_ff (tl z) of
             None \<Rightarrow> None
           | Some (h, m, s, f) \<Rightarrow>
               (let us = (int h * 3600 + int m * 60 + int s) * 1000000 + int f
                in if us < 86400000000
                   then Some (if hd z = CHR ''-'' then - us else us) else None))"

definition parse_isoformat_time :: "string \<Rightarrow> ((nat \<times> nat \<times> nat \<times> nat) \<times> int option) option" where
  "parse_isoformat_time t =
     (let hms = takeWhile (\<lambda>c. \<not> is_sign c) t;
          z = dropWhile (\<lambda>c. \<not> is_sign c) t
      in case parse_hh_mm_ss_ff hms of
           None \<Rightarrow> None
         | Some c \<Rightarrow>
             (if z = [] then Some (c, None)
              else case parse_tz z of None \<Rightarrow> None | Some off \<Rightarrow> Some (c, Some off)))"

text \<open>The range checks of the \<^verbatim>\<open>datetime\<close> constructor.\<close>

definition new_datetime :: "nat \<times> nat \<times> nat \<Rightarrow> (nat \<times> nat \<times> nat \<times> nat) \<times> int option \<Rightarrow> datetime option" where
  "new_datetime d t =
     (case (d, t) of
        ((y, mo, dd), ((h, mi, s, us), tz)) \<Rightarrow>
          (if 1 \<le> y \<and> y \<le> 9999 \<and> 1 \<le> mo \<and> mo \<le> 12 \<and> 1 \<le> dd \<and> dd \<le> days_in_month y mo
              \<and> h \<le> 23 \<and> mi \<le> 59 \<and> s \<le> 59 \<and> us \<le> 999999
           then Some \<lparr>year = y, month = mo, day = dd, hour = h, minute = mi, second = s,
                      microsecond = us, tzoffset = tz\<rparr>
           else None))"

definition parse_iso :: "string \<Rightarrow> datetime option" where
  "parse_iso s =
     (case parse_isoformat_date (take 10 s) of
        None \<Rightarrow> None
      | Some d \<Rightarrow>
          (if length s = 10 then new_datetime d ((0, 0, 0, 0), None)
           else case parse_isoformat_time (drop 11 s) of
                  None \<Rightarrow> None
                | Some t \<Rightarrow> new_datetime d t))"

text \<open>
  The value of the \<^verbatim>\<open>timestamp\<close> field as the validator receives it: a string, an
  object that already is a \<^verbatim>\<open>datetime\<close>, or any other value (a number, null, a list).
\<close>

datatype raw = RawStr string | RawDatetime datetime | RawOther

definition fromisoformat :: "raw \<Rightarrow> error + datetime" where
  "fromisoformat v =
     (case v of
        RawStr s \<Rightarrow> (case parse_iso s of None \<Rightarrow> Inl ValueError | Some d \<Rightarrow> Inr d)
      | _ \<Rightarrow> Inl TypeError)"

text \<open>\<^verbatim>\<open>AgentData.check_timestamp\<close> (lines 70-80).\<close>

definition check_timestamp :: "raw \<Rightarrow> error + datetime" where
  "check_timestamp v =
     (case v of
        RawDatetime d \<Rightarrow> Inr d
      | _ \<Rightarrow> (case fromisoformat v of
                Inr d \<Rightarrow> Inr d
              | Inl e \<Rightarrow> Inl ValueError))"

section \<open>The values handed to the dispatcher and their JSON text\<close>

text \<open>
  The parameter \<^verbatim>\<open>data\<close> of \<^verbatim>\<open>send_data_to_subscribers\<close> has no annotation. The
  values modelled are an instance of the pydantic model (what the create handler passes)
  and the scalars \<^verbatim>\<open>None\<close>, \<^verbatim>\<open>bool\<close> and \<^verbatim>\<open>str\<close>. A \<^verbatim>\<open>str\<close> is a
  \<^typ>\<open>string\<close> whose characters are the code points below 256.
\<close>

datatype pyobj = PyNone | PyBool bool | PyStr string | PyModel ProcessedAgentData

definition hex_digit :: "nat \<Rightarrow> char" where
  "hex_digit n = ''0123456789abcdef'' ! n"

text \<open>
  The escapes of the \<^verbatim>\<open>json\<close> encoder for one character of a string. With
  \<^verbatim>\<open>ensure_ascii\<close> every character outside the printable ASCII range is written
  \<^verbatim>\<open>\u00XX\<close>; without it only the control characters are.
\<close>

definition escape_char :: "bool \<Rightarrow> char \<Rightarrow> string" where
  "escape_char ensure_ascii c =
     (let n = (of_char c :: nat) in
      if c = CHR 0x22 then [CHR 0x5C, CHR 0x22]
      else if c = CHR 0x5C then [CHR 0x5C, CHR 0x5C]
      else if c = CHR 0x0A then [CHR 0x5C, CHR ''n'']
      else if c = CHR 0x0D then [CHR 0x5C, CHR ''r'']
      else if c = CHR 0x09 then [CHR 0x5C, CHR ''t'']
      else if c = CHR 0x0C then [CHR 0x5C, CHR ''f'']
      else if c = CHR 0x08 then [CHR 0x5C, CHR ''b'']
      else if n < 32 \<or> (ensure_ascii \<and> 127 \<le> n)
        then [CHR 0x5C, CHR ''u'', CHR ''0'', CHR ''0'', hex_digit (n div 16), hex_digit (n mod 16)]
      else [c])"

text \<open>
  \<^verbatim>\<open>json.dumps\<close>: the encoder knows dict, list, tuple, str, int, float, bool and None.
  Any other object, a pydantic model instance among them, reaches
  \<^verbatim>\<open>JSONEncoder.default\<close>, which raises \<^verbatim>\<open>TypeError\<close>.
\<close>

fun json_dumps :: "bool \<Rightarrow> pyobj \<Rightarrow> error + string" where
  "json_dumps ensure_ascii PyNone = Inr ''null''"
| "json_dumps ensure_ascii (PyBool b) = Inr (if b then ''true'' else ''false'')"
| "json_dumps ensure_ascii (PyStr s) =
     Inr ([CHR 0x22] @ concat (map (escape_char ensure_ascii) s) @ [CHR 0x22])"
| "json_dumps ensure_ascii (PyModel m) = Inl TypeError"

section \<open>Program state\<close>

text \<open>
  A \<^verbatim>\<open>WebSocket\<close> object: whether its connection is alive, and the text frames sent
  over it so far.
\<close>

record WebSocket =
  connected :: bool
  sent :: "string list"

text \<open>
  The table behind the session. The engine is chosen by \<^verbatim>\<open>config.DATABASE_URL\<close>, which
  is not part of the sources; the table holds every column value as the handler assigned it.
\<close>

record Database =
  rows :: "ProcessedAgentDataDB list"
  next_id :: int

text \<open>
  The order of effects is recorded in a log that no branch of the program reads: a row
  committed by the create handler, and a call of the dispatcher with its two arguments and
  the table as it was at the call.
\<close>

datatype event = Created ProcessedAgentDataDB | Published int pyobj Database

text \<open>
  \<^verbatim>\<open>subscriptions\<close> (line 89) maps a user id to a set of sockets. A set is kept as the
  list of its elements in the order the \<^verbatim>\<open>for\<close> loop visits them; sockets are named
  by numbers.
\<close>

record state =
  database :: Database
  subscriptions :: "int \<rightharpoonup> nat list"
  sockets :: "nat \<Rightarrow> WebSocket"
  log :: "event list"

section \<open>The dispatcher\<close>

text \<open>
  \<^verbatim>\<open>WebSocket.send_json\<close> of Starlette: encode with \<^verbatim>\<open>ensure_ascii=False\<close>, then send
  the text frame; sending over a dead connection raises.
\<close>

definition send_json :: "nat \<Rightarrow> pyobj \<Rightarrow> state \<Rightarrow> error + state" where
  "send_json ws data st =
     (case json_dumps False data of
        Inl e \<Rightarrow> Inl e
      | Inr text \<Rightarrow>
          (if connected (sockets st ws)
           then Inr (st\<lparr>sockets := (sockets st)(ws := (sockets st ws)\<lparr>sent := sent (sockets st ws) @ [text]\<rparr>)\<rparr>)
           else Inl ConnectionClosed))"

text \<open>The loop of lines 109-110; an exception leaves it at once.\<close>

fun send_loop :: "nat list \<Rightarrow> pyobj \<Rightarrow> state \<Rightarrow> (error + unit) \<times> state" where
  "send_loop [] data st = (Inr (), st)"
| "send_loop (websocket # rest) data st =
     (case json_dumps True data of
        Inl e \<Rightarrow> (Inl e, st)
      | Inr text \<Rightarrow>
          (case send_json websocket (PyStr text) st of
             Inl e \<Rightarrow> (Inl e, st)
           | Inr st' \<Rightarrow> send_loop rest data st'))"

text \<open>\<^verbatim>\<open>send_data_to_subscribers\<close> (lines 107-110).\<close>

definition send_data_to_subscribers :: "int \<Rightarrow> pyobj \<Rightarrow> state \<Rightarrow> (error + unit) \<times> state" where
  "send_data_to_subscribers uid data st =
     (let st1 = st\<lparr>log := log st @ [Published uid data (database st)]\<rparr>
      in case subscriptions st1 uid of
           None \<Rightarrow> (Inr (), st1)
         | Some websockets \<Rightarrow> send_loop websockets data st1)"

section \<open>The record store and the CRUD handlers\<close>

definition db_item :: "int \<Rightarrow> ProcessedAgentData \<Rightarrow> ProcessedAgentDataDB" where
  "db_item i item =
     \<lparr>db_id = i,
      db_road_state = road_state item,
      db_user_id = user_id (agent_data item),
      db_x = acc_x (accelerometer (agent_data item)),
      db_y = acc_y (accelerometer (agent_data item)),
      db_z = acc_z (accelerometer (agent_data item)),
      db_latitude = gps_latitude (gps (agent_data item)),
      db_longitude = gps_longitude (gps (agent_data item)),
      db_timestamp = timestamp (agent_data item)\<rparr>"

text \<open>
  Modelled from the spec: the id given to a new row. The engine that assigns it is the one
  behind \<^verbatim>\<open>config.DATABASE_URL\<close> and is not in the sources; the spec has the store assign
  a unique id that is never reused, which a counter does. The parameter \<open>accepts\<close> says
  which rows the engine commits; a refused commit raises and leaves the table as it was.
  Lines 132-134: \<^verbatim>\<open>add\<close>, \<^verbatim>\<open>commit\<close>, \<^verbatim>\<open>refresh\<close>.
\<close>

definition add_commit_refresh ::
  "(ProcessedAgentDataDB \<Rightarrow> bool) \<Rightarrow> ProcessedAgentData \<Rightarrow> Database \<Rightarrow> error + ProcessedAgentDataDB \<times> Database" where
  "add_commit_refresh accepts item db =
     (let r = db_item (next_id db) item
      in if accepts r then Inr (r, \<lparr>rows = rows db @ [r], next_id = next_id db + 1\<rparr>)
         else Inl SQLAlchemyError)"

text \<open>\<^verbatim>\<open>create_processed_agent_data\<close> (lines 116-135); it returns \<^verbatim>\<open>None\<close>.\<close>

fun create_processed_agent_data ::
  "(ProcessedAgentDataDB \<Rightarrow> bool) \<Rightarrow> ProcessedAgentData list \<Rightarrow> state \<Rightarrow> (error + unit) \<times> state" where
  "create_processed_agent_data accepts [] st = (Inr (), st)"
| "create_processed_agent_data accepts (item # rest) st =
     (case add_commit_refresh accepts item (database st) of
        Inl e \<Rightarrow> (Inl e, st)
      | Inr (r, db) \<Rightarrow>
          (case send_data_to_subscribers (user_id (agent_data item)) (PyModel item)
                  (st\<lparr>database := db, log := log st @ [Created r]\<rparr>) of
             (Inl e, st') \<Rightarrow> (Inl e, st')
           | (Inr u, st') \<Rightarrow> create_processed_agent_data accepts rest st'))"

text \<open>The query \<^verbatim>\<open>filter(ProcessedAgentDataDB.id == i).first()\<close>.\<close>

definition query_first :: "int \<Rightarrow> Database \<Rightarrow> ProcessedAgentDataDB option" where
  "query_first i db = find (\<lambda>r. db_id r = i) (rows db)"

text \<open>The response model built from a row (lines 147-154, 165-171, 204-210, 231-237).\<close>

definition processed_data :: "ProcessedAgentDataDB \<Rightarrow> ProcessedAgentData" where
  "processed_data r =
     \<lparr>road_state = db_road_state r,
      agent_data =
        \<lparr>user_id = db_user_id r,
         accelerometer = \<lparr>acc_x = db_x r, acc_y = db_y r, acc_z = db_z r\<rparr>,
         gps = \<lparr>gps_latitude = db_latitude r, gps_longitude = db_longitude r\<rparr>,
         timestamp = db_timestamp r\<rparr>\<rparr>"

text \<open>
  \<^verbatim>\<open>read_processed_agent_data\<close> (lines 139-156): there is no test for \<^verbatim>\<open>None\<close>, so on
  a missing row the attribute access \<^verbatim>\<open>db_data.user_id\<close> raises \<^verbatim>\<open>AttributeError\<close>.
\<close>

definition read_processed_agent_data :: "int \<Rightarrow> Database \<Rightarrow> error + ProcessedAgentData" where
  "read_processed_agent_data i db =
     (case query_first i db of
        None \<Rightarrow> Inl AttributeError
      | Some db_data \<Rightarrow> Inr (processed_data db_data))"

text \<open>\<^verbatim>\<open>list_processed_agent_data\<close> (lines 159-173).\<close>

definition list_processed_agent_data :: "Database \<Rightarrow> ProcessedAgentData list" where
  "list_processed_agent_data db = map processed_data (rows db)"

fun replace_first :: "('a \<Rightarrow> bool) \<Rightarrow> 'a \<Rightarrow> 'a list \<Rightarrow> 'a list" where
  "replace_first P v [] = []"
| "replace_first P v (r # rs) = (if P r then v # rs else r # replace_first P v rs)"

definition not_found :: error where
  "not_found = HTTPException 404 ''Processed agent data not found''"

text \<open>\<^verbatim>\<open>update_processed_agent_data\<close> (lines 180-212).\<close>

definition update_processed_agent_data ::
  "(ProcessedAgentDataDB \<Rightarrow> bool) \<Rightarrow> int \<Rightarrow> ProcessedAgentData \<Rightarrow> Database \<Rightarrow> (error + ProcessedAgentData) \<times> Database" where
  "update_processed_agent_data accepts i data db =
     (case query_first i db of
        None \<Rightarrow> (Inl not_found, db)
      | Some db_data \<Rightarrow>
          (let r = db_item (db_id db_data) data
           in if accepts r
              then (Inr (processed_data r), db\<lparr>rows := replace_first (\<lambda>q. db_id q = i) r (rows db)\<rparr>)
              else (Inl SQLAlchemyError, db)))"

text \<open>\<^verbatim>\<open>delete_processed_agent_data\<close> (lines 219-239).\<close>

definition delete_processed_agent_data :: "int \<Rightarrow> Database \<Rightarrow> (error + ProcessedAgentData) \<times> Database" where
  "delete_processed_agent_data i db =
     (case query_first i db of
        None \<Rightarrow> (Inl not_found, db)
      | Some db_data \<Rightarrow> (Inr (processed_data db_data), db\<lparr>rows := remove1 db_data (rows db)\<rparr>))"

section \<open>Request validation in front of the create handler\<close>

text \<open>
  An item of the request body before validation: the \<^verbatim>\<open>timestamp\<close> is still the raw
  JSON value, the other fields are taken as already well typed. The field is validated by
  \<^verbatim>\<open>check_timestamp\<close> as the model declares it. (The hook is declared with
  \<^verbatim>\<open>classmethod\<close> outside \<^verbatim>\<open>field_validator\<close>; pydantic's own parser of the
  \<^verbatim>\<open>datetime\<close> type, which checks the field in any case, decides the two strings
  \<^verbatim>\<open>not-a-date\<close> and \<^verbatim>\<open>2024-01-01T12:00:00\<close> the same way.)
\<close>

record RawAgentData =
  raw_user_id :: int
  raw_accelerometer :: AccelerometerData
  raw_gps :: GpsData
  raw_timestamp :: raw

record RawProcessedAgentData =
  raw_road_state :: string
  raw_agent_data :: RawAgentData

definition validate_item :: "RawProcessedAgentData \<Rightarrow> error + ProcessedAgentData" where
  "validate_item b =
     (case check_timestamp (raw_timestamp (raw_agent_data b)) of
        Inl e \<Rightarrow> Inl e
      | Inr ts \<Rightarrow>
          Inr \<lparr>road_state = raw_road_state b,
               agent_data =
                 \<lparr>user_id = raw_user_id (raw_agent_data b),
                  accelerometer = raw_accelerometer (raw_agent_data b),
                  gps = raw_gps (raw_agent_data b),
                  timestamp = ts\<rparr>\<rparr>)"

fun validate_body :: "RawProcessedAgentData list \<Rightarrow> error + ProcessedAgentData list" where
  "validate_body [] = Inr []"
| "validate_body (b # bs) =
     (case validate_item b of
        Inl e \<Rightarrow> Inl e
      | Inr item \<Rightarrow> (case validate_body bs of Inl e \<Rightarrow> Inl e | Inr items \<Rightarrow> Inr (item # items)))"

text \<open>
  The route \<^verbatim>\<open>@app.post("/processed_agent_data/")\<close> (line 115): the parameter
  \<^verbatim>\<open>data: List[ProcessedAgentData]\<close> makes FastAPI build and validate the whole list
  before it calls the handler; a body with an invalid item is answered with a validation
  error and the handler does not run.
\<close>

definition post_processed_agent_data ::
  "(ProcessedAgentDataDB \<Rightarrow> bool) \<Rightarrow> RawProcessedAgentData list \<Rightarrow> state \<Rightarrow> (error + unit) \<times> state" where
  "post_processed_agent_data accepts body st =
     (case validate_body body of
        Inl e \<Rightarrow> (Inl RequestValidationError, st)
      | Inr data \<Rightarrow> create_processed_agent_data accepts data st)"

section \<open>The WebSocket endpoint\<close>

text \<open>Lines 96-98: the set is created on first use, then the socket is added.\<close>

definition subscribe :: "int \<Rightarrow> nat \<Rightarrow> (int \<rightharpoonup> nat list) \<Rightarrow> (int \<rightharpoonup> nat list)" where
  "subscribe uid ws subs =
     (case subs uid of
        None \<Rightarrow> subs(uid \<mapsto> [ws])
      | Some s \<Rightarrow> subs(uid \<mapsto> (if ws \<in> set s then s else s @ [ws])))"

text \<open>
  Line 103, \<^verbatim>\<open>subscriptions[user_id].remove(websocket)\<close>: the subscript raises
  \<^verbatim>\<open>KeyError\<close> on a missing key, and so does \<^verbatim>\<open>set.remove\<close> on a missing element.
\<close>

definition unsubscribe :: "int \<Rightarrow> nat \<Rightarrow> (int \<rightharpoonup> nat list) \<Rightarrow> error + (int \<rightharpoonup> nat list)" where
  "unsubscribe uid ws subs =
     (case subs uid of
        None \<Rightarrow> Inl KeyError
      | Some s \<Rightarrow> (if ws \<in> set s then Inr (subs(uid \<mapsto> remove1 ws s)) else Inl KeyError))"

text \<open>
  What \<^verbatim>\<open>receive_text\<close> gives the loop of lines 100-101: a text message, or the
  exception \<^verbatim>\<open>WebSocketDisconnect\<close>, the only one the handler catches. Binary frames are
  left out.
\<close>

datatype message = Text string | Disconnect

definition set_connected :: "nat \<Rightarrow> bool \<Rightarrow> state \<Rightarrow> state" where
  "set_connected ws b st = st\<lparr>sockets := (sockets st)(ws := (sockets st ws)\<lparr>connected := b\<rparr>)\<rparr>"

text \<open>
  The loop runs for as long as the client keeps the connection: when the messages so far
  hold no disconnect the handler has not returned, which is the result \<open>None\<close>.
\<close>

fun receive_loop :: "nat \<Rightarrow> int \<Rightarrow> message list \<Rightarrow> state \<Rightarrow> (error + unit) option \<times> state" where
  "receive_loop ws uid [] st = (None, st)"
| "receive_loop ws uid (Text t # ms) st = receive_loop ws uid ms st"
| "receive_loop ws uid (Disconnect # ms) st =
     (let st' = set_connected ws False st
      in case unsubscribe uid ws (subscriptions st') of
           Inl e \<Rightarrow> (Some (Inl e), st')
         | Inr subs \<Rightarrow> (Some (Inr ()), st'\<lparr>subscriptions := subs\<rparr>))"

text \<open>\<^verbatim>\<open>websocket_endpoint\<close> (lines 94-103).\<close>

definition websocket_endpoint :: "nat \<Rightarrow> int \<Rightarrow> message list \<Rightarrow> state \<Rightarrow> (error + unit) option \<times> state" where
  "websocket_endpoint ws uid ms st =
     (let st1 = set_connected ws True st;
          st2 = st1\<lparr>subscriptions := subscribe uid ws (subscriptions st1)\<rparr>
      in receive_loop ws uid ms st2)"

section \<open>Histories of requests\<close>

text \<open>
  One request after the other. \<open>WsOpen\<close> is a client connecting and sending the given
  messages, \<open>WsMore\<close> the same client sending further ones, \<open>PeerLost\<close> a connection
  that died while its handler has not yet seen the disconnect.
\<close>

datatype request =
  Post "RawProcessedAgentData list"
  | Get int
  | GetAll
  | Put int ProcessedAgentData
  | Delete int
  | WsOpen nat int "message list"
  | WsMore nat int "message list"
  | PeerLost nat

fun step :: "(ProcessedAgentDataDB \<Rightarrow> bool) \<Rightarrow> state \<Rightarrow> request \<Rightarrow> state" where
  "step accepts st (Post body) = snd (post_processed_agent_data accepts body st)"
| "step accepts st (Get i) = st"
| "step accepts st GetAll = st"
| "step accepts st (Put i data) = st\<lparr>database := snd (update_processed_agent_data accepts i data (database st))\<rparr>"
| "step accepts st (Delete i) = st\<lparr>database := snd (delete_processed_agent_data i (database st))\<rparr>"
| "step accepts st (WsOpen ws uid ms) = snd (websocket_endpoint ws uid ms st)"
| "step accepts st (WsMore ws uid ms) = snd (receive_loop ws uid ms st)"
| "step accepts st (PeerLost ws) = set_connected ws False st"

definition run :: "(ProcessedAgentDataDB \<Rightarrow> bool) \<Rightarrow> request list \<Rightarrow> state \<Rightarrow> state" where
  "run accepts reqs st = foldl (step accepts) st reqs"

text \<open>The service right after start on an empty table.\<close>

definition initial :: state where
  "initial =
     \<lparr>database = \<lparr>rows = [], next_id = 1\<rparr>,
      subscriptions = Map.empty,
      sockets = (\<lambda>ws. \<lparr>connected = False, sent = []\<rparr>),
      log = []\<rparr>"



section \<open>Notions used in the statements\<close>

text \<open>
  The table is in order when the primary key is unique and the counter is ahead of every
  id in it.
\<close>

definition store_ok :: "Database \<Rightarrow> bool" where
  "store_ok db = (distinct (map db_id (rows db)) \<and> list_all (\<lambda>r. db_id r < next_id db) (rows db))"

text \<open>The rows that committing a list of items one after the other adds, starting at id \<open>i\<close>.\<close>

fun new_rows :: "int \<Rightarrow> ProcessedAgentData list \<Rightarrow> ProcessedAgentDataDB list" where
  "new_rows i [] = []"
| "new_rows i (item # rest) = db_item i item # new_rows (i + 1) rest"

definition commit_all :: "Database \<Rightarrow> ProcessedAgentData list \<Rightarrow> Database" where
  "commit_all db items =
     \<lparr>rows = rows db @ new_rows (next_id db) items, next_id = next_id db + int (length items)\<rparr>"

text \<open>The log entries of committing and publishing a list of items one after the other.\<close>

fun new_events :: "Database \<Rightarrow> ProcessedAgentData list \<Rightarrow> event list" where
  "new_events db [] = []"
| "new_events db (item # rest) =
     Created (db_item (next_id db) item)
       # Published (user_id (agent_data item)) (PyModel item) (commit_all db [item])
       # new_events (commit_all db [item]) rest"

text \<open>An engine that commits every row.\<close>

definition accept_all :: "ProcessedAgentDataDB \<Rightarrow> bool" where
  "accept_all r = True"


text \<open>The record of the round-trip example of the spec, and its request body.\<close>

definition midnight :: datetime where
  "midnight = \<lparr>year = 2024, month = 1, day = 1, hour = 0, minute = 0, second = 0,
                microsecond = 0, tzoffset = None\<rparr>"

definition noon :: datetime where
  "noon = \<lparr>year = 2024, month = 1, day = 1, hour = 12, minute = 0, second = 0,
            microsecond = 0, tzoffset = None\<rparr>"

definition record7 :: ProcessedAgentData where
  "record7 =
     \<lparr>road_state = ''dry'',
      agent_data =
        \<lparr>user_id = 7,
         accelerometer = \<lparr>acc_x = 1, acc_y = 2, acc_z = 3\<rparr>,
         gps = \<lparr>gps_latitude = 10.5, gps_longitude = 20.5\<rparr>,
         timestamp = midnight\<rparr>\<rparr>"

definition body_with :: "int \<Rightarrow> raw \<Rightarrow> RawProcessedAgentData" where
  "body_with uid ts =
     \<lparr>raw_road_state = ''dry'',
      raw_agent_data =
        \<lparr>raw_user_id = uid,
         raw_accelerometer = \<lparr>acc_x = 1, acc_y = 2, acc_z = 3\<rparr>,
         raw_gps = \<lparr>gps_latitude = 10.5, gps_longitude = 20.5\<rparr>,
         raw_timestamp = ts\<rparr>\<rparr>"


text \<open>
  A log segment made of pairs: a row committed, then the dispatcher called with the record
  of that row, under its user id, at a moment when a read by the row's id returns it.
\<close>

fun commit_then_publish :: "event list \<Rightarrow> bool" where
  "commit_then_publish [] = True"
| "commit_then_publish (Created r # Published uid data db # es) =
     (data = PyModel (processed_data r) \<and> uid = db_user_id r
      \<and> read_processed_agent_data (db_id r) db = Inr (processed_data r)
      \<and> commit_then_publish es)"
| "commit_then_publish es = False"






text \<open>Request bodies for agent 7: one that validates to \<open>record7\<close>, one with a bad timestamp.\<close>

definition good7 :: RawProcessedAgentData where
  "good7 = body_with 7 (RawStr ''2024-01-01T00:00:00'')"

definition bad7 :: RawProcessedAgentData where
  "bad7 = body_with 7 (RawStr ''not-a-date'')"




section \<open>Evaluation lemmas\<close>

lemmas iso_defs = check_timestamp_def fromisoformat_def parse_iso_def parse_isoformat_date_def
  parse_isoformat_time_def parse_hh_mm_ss_ff_def new_datetime_def digits_def is_digit_def
  is_sign_def days_in_month_def

lemma check_timestamp_not_a_date: "check_timestamp (RawStr ''not-a-date'') = Inl ValueError"
  by (simp add: iso_defs)

lemma check_timestamp_noon: "check_timestamp (RawStr ''2024-01-01T12:00:00'') = Inr noon"
  by (simp add: iso_defs noon_def)


lemma check_timestamp_error: "check_timestamp v = Inl e \<Longrightarrow> e = ValueError"
  by (auto simp: check_timestamp_def split: raw.splits sum.splits)

lemma initial_simps:
  "database initial = \<lparr>rows = [], next_id = 1\<rparr>"
  "subscriptions initial = Map.empty"
  "log initial = []"
  "sockets initial ws = \<lparr>connected = False, sent = []\<rparr>"
  by (simp_all add: initial_def)



lemma user_id_record7: "user_id (agent_data record7) = 7"
  by (simp add: record7_def)

section \<open>Unknown ids\<close>

lemma update_of_missing_id:
  "query_first i db = None \<Longrightarrow> update_processed_agent_data accepts i data db = (Inl not_found, db)"
  by (simp add: update_processed_agent_data_def)

lemma delete_of_missing_id:
  "query_first i db = None \<Longrightarrow> delete_processed_agent_data i db = (Inl not_found, db)"
  by (simp add: delete_processed_agent_data_def)

lemma read_of_missing_id:
  "query_first i db = None \<Longrightarrow> read_processed_agent_data i db = Inl AttributeError"
  by (simp add: read_processed_agent_data_def)

text \<open>
  C5. The claim has get, update and delete each signal a not-found condition for an id
  that is not in the store, leaving the store as it was. On the empty table, update and
  delete of id 1 raise the 404 \<^verbatim>\<open>HTTPException\<close> and return the table unchanged, but the
  read of id 1 raises \<^verbatim>\<open>AttributeError\<close>: the handler has no test for a missing row,
  which the two sibling handlers have.
\<close>

theorem C5_read_of_missing_id:
  "read_processed_agent_data 1 (database initial) = Inl AttributeError
   \<and> AttributeError \<noteq> not_found
   \<and> update_processed_agent_data accept_all 1 record7 (database initial) = (Inl not_found, database initial)
   \<and> delete_processed_agent_data 1 (database initial) = (Inl not_found, database initial)"
  by (simp add: read_processed_agent_data_def update_processed_agent_data_def
        delete_processed_agent_data_def query_first_def initial_def not_found_def)

section \<open>What the dispatcher and the create handler change\<close>

lemma processed_data_db_item: "processed_data (db_item i item) = item"
  by (simp add: processed_data_def db_item_def)

lemma db_id_db_item: "db_id (db_item i item) = i"
  by (simp add: db_item_def)

lemma db_user_id_db_item: "db_user_id (db_item i item) = user_id (agent_data item)"
  by (simp add: db_item_def)




lemma send_loop_model:
  "send_loop wss (PyModel m) st = (if wss = [] then (Inr (), st) else (Inl TypeError, st))"
  by (cases wss) simp_all

lemma send_data_model:
  "send_data_to_subscribers uid (PyModel m) st =
     ((if subscriptions st uid = None \<or> subscriptions st uid = Some [] then Inr () else Inl TypeError),
      st\<lparr>log := log st @ [Published uid (PyModel m) (database st)]\<rparr>)"
  by (auto simp: send_data_to_subscribers_def Let_def send_loop_model split: option.splits)

lemma commit_all_Nil: "commit_all db [] = db"
  by (simp add: commit_all_def)

lemma commit_all_Cons:
  "commit_all db (item # items) = commit_all (commit_all db [item]) items"
  by (simp add: commit_all_def)

lemma add_commit_refresh_Inr:
  "add_commit_refresh accepts item db = Inr (r, db') \<longleftrightarrow>
     accepts (db_item (next_id db) item) \<and> r = db_item (next_id db) item \<and> db' = commit_all db [item]"
  by (auto simp: add_commit_refresh_def commit_all_def Let_def)

lemma add_commit_refresh_Inl:
  "add_commit_refresh accepts item db = Inl e \<longleftrightarrow>
     \<not> accepts (db_item (next_id db) item) \<and> e = SQLAlchemyError"
  by (auto simp: add_commit_refresh_def Let_def)

lemma create_prefix:
  "create_processed_agent_data accepts data st = (res, st') \<Longrightarrow>
   \<exists>k \<le> length data.
      database st' = commit_all (database st) (take k data)
      \<and> log st' = log st @ new_events (database st) (take k data)
      \<and> subscriptions st' = subscriptions st
      \<and> sockets st' = sockets st
      \<and> (res = Inr () \<longrightarrow> k = length data)
      \<and> (res = Inl SQLAlchemyError \<longrightarrow>
            k < length data \<and> \<not> accepts (db_item (next_id (database st) + int k) (data ! k)))
      \<and> (\<forall>e. res = Inl e \<longrightarrow> e = SQLAlchemyError \<or> e = TypeError)"
proof (induction data arbitrary: st)
  case Nil
  then show ?case by (auto simp: commit_all_Nil)
next
  case (Cons item rest)
  let ?r = "db_item (next_id (database st)) item"
  show ?case
  proof (cases "accepts ?r")
    case False
    then have "add_commit_refresh accepts item (database st) = Inl SQLAlchemyError"
      by (simp add: add_commit_refresh_Inl)
    with Cons.prems have "res = Inl SQLAlchemyError" "st' = st" by simp_all
    with False show ?thesis
      by (intro exI[of _ 0]) (simp add: commit_all_Nil)
  next
    case True
    let ?db = "commit_all (database st) [item]"
    let ?st1 = "st\<lparr>database := ?db, log := log st @ [Created ?r]\<rparr>"
    let ?st2 = "?st1\<lparr>log := log ?st1 @ [Published (user_id (agent_data item)) (PyModel item) ?db]\<rparr>"
    have acr: "add_commit_refresh accepts item (database st) = Inr (?r, ?db)"
      using True by (simp add: add_commit_refresh_Inr)
    show ?thesis
    proof (cases "subscriptions st (user_id (agent_data item)) = None
                  \<or> subscriptions st (user_id (agent_data item)) = Some []")
      case False
      with Cons.prems acr have "res = Inl TypeError" "st' = ?st2"
        by (auto simp: send_data_model)
      then show ?thesis
        by (intro exI[of _ 1]) (simp add: commit_all_Nil)
    next
      case quiet: True
      with Cons.prems acr have rec: "create_processed_agent_data accepts rest ?st2 = (res, st')"
        by (auto simp: send_data_model)
      from Cons.IH[OF rec] obtain k where k: "k \<le> length rest"
        "database st' = commit_all ?db (take k rest)"
        "log st' = log ?st2 @ new_events ?db (take k rest)"
        "subscriptions st' = subscriptions st"
        "sockets st' = sockets st"
        "res = Inr () \<longrightarrow> k = length rest"
        "res = Inl SQLAlchemyError \<longrightarrow>
            k < length rest \<and> \<not> accepts (db_item (next_id ?db + int k) (rest ! k))"
        "\<forall>e. res = Inl e \<longrightarrow> e = SQLAlchemyError \<or> e = TypeError"
        by auto
      have nid: "next_id ?db + int k = next_id (database st) + int (Suc k)"
        by (simp add: commit_all_def)
      have db': "database st' = commit_all (database st) (take (Suc k) (item # rest))"
        using k(2) commit_all_Cons[of "database st" item "take k rest"] by simp
      have lg: "log st' = log st @ new_events (database st) (take (Suc k) (item # rest))"
        using k(3) by simp
      have bad: "res = Inl SQLAlchemyError \<longrightarrow>
            Suc k < length (item # rest)
            \<and> \<not> accepts (db_item (next_id (database st) + int (Suc k)) ((item # rest) ! Suc k))"
        using k(7) nid by simp
      have len: "Suc k \<le> length (item # rest)" "res = Inr () \<longrightarrow> Suc k = length (item # rest)"
        using k(1,6) by simp_all
      from db' lg bad len k(4,5,8) show ?thesis
        by blast
    qed
  qed
qed

section \<open>The order of commit and publish\<close>

lemma find_append_fresh:
  "list_all (\<lambda>r. \<not> P r) xs \<Longrightarrow> find P (xs @ ys) = find P ys"
  by (induction xs) auto

lemma find_append_keep:
  "find P xs = Some r \<Longrightarrow> find P (xs @ ys) = Some r"
  by (induction xs) (auto split: if_splits)

lemma ids_below_fresh:
  "list_all (\<lambda>r. db_id r < n) rs \<Longrightarrow> list_all (\<lambda>r. \<not> db_id r = n) rs"
  by (induction rs) auto

lemma read_after_commit:
  assumes "list_all (\<lambda>r. db_id r < next_id db) (rows db)"
  shows "read_processed_agent_data (next_id db) (commit_all db [item]) = Inr item"
  using find_append_fresh[OF ids_below_fresh[OF assms], of "[db_item (next_id db) item]"]
  by (simp add: read_processed_agent_data_def query_first_def commit_all_def
        db_id_db_item processed_data_db_item)

lemma ids_below_commit:
  "list_all (\<lambda>r. db_id r < next_id db) (rows db) \<Longrightarrow>
   list_all (\<lambda>r. db_id r < next_id (commit_all db items)) (rows (commit_all db items))"
proof (induction items arbitrary: db)
  case Nil
  then show ?case by (simp add: commit_all_def)
next
  case (Cons item items)
  have "list_all (\<lambda>r. db_id r < next_id (commit_all db [item])) (rows (commit_all db [item]))"
    using Cons.prems by (auto simp: commit_all_def db_id_db_item list_all_iff)
  from Cons.IH[OF this] show ?case
    using commit_all_Cons[of db item items] by simp
qed

lemma new_events_commit_then_publish:
  "list_all (\<lambda>r. db_id r < next_id db) (rows db) \<Longrightarrow> commit_then_publish (new_events db items)"
proof (induction items arbitrary: db)
  case Nil
  then show ?case by simp
next
  case (Cons item items)
  have "commit_then_publish (new_events (commit_all db [item]) items)"
    using Cons.IH[OF ids_below_commit[OF Cons.prems]] .
  with read_after_commit[OF Cons.prems, of item] show ?case
    by (simp add: db_id_db_item processed_data_db_item db_user_id_db_item)
qed





lemma store_ok_ids_below: "store_ok db \<Longrightarrow> list_all (\<lambda>r. db_id r < next_id db) (rows db)"
  by (simp add: store_ok_def)

text \<open>
  C3. For every item of a batch the dispatcher is called only after the commit of that
  item's row: what the create handler adds to the log is a sequence of pairs, a row
  committed and then the publish of that very record, and at the publish a read by the
  row's id already returns the record.
\<close>

theorem C3_publish_after_commit:
  assumes "store_ok (database st)"
    and "create_processed_agent_data accepts data st = (res, st')"
  shows "\<exists>new. log st' = log st @ new \<and> commit_then_publish new"
proof -
  from create_prefix[OF assms(2)] obtain k where
    "log st' = log st @ new_events (database st) (take k data)" by blast
  with new_events_commit_then_publish[OF store_ok_ids_below[OF assms(1)]] show ?thesis
    by blast
qed

lemma create_two_at_initial:
  "create_processed_agent_data accept_all [record7, record7] initial =
     (Inr (),
      initial\<lparr>database := \<lparr>rows = [db_item 1 record7, db_item 2 record7], next_id = 3\<rparr>,
              log := [Created (db_item 1 record7),
                      Published 7 (PyModel record7) \<lparr>rows = [db_item 1 record7], next_id = 2\<rparr>,
                      Created (db_item 2 record7),
                      Published 7 (PyModel record7)
                        \<lparr>rows = [db_item 1 record7, db_item 2 record7], next_id = 3\<rparr>]\<rparr>)"
  by (simp add: add_commit_refresh_def accept_all_def send_data_model initial_simps
        user_id_record7 Let_def)

text \<open>The theorem of C3 at a batch of two records on the empty table.\<close>

theorem C3_publish_after_commit_witness:
  "store_ok (database initial)
   \<and> (\<exists>new. log (snd (create_processed_agent_data accept_all [record7, record7] initial))
              = log initial @ new \<and> commit_then_publish new)
   \<and> length (log (snd (create_processed_agent_data accept_all [record7, record7] initial))) = 4"
proof -
  have ok: "store_ok (database initial)"
    by (simp add: store_ok_def initial_simps)
  have run: "create_processed_agent_data accept_all [record7, record7] initial =
      (fst (create_processed_agent_data accept_all [record7, record7] initial),
       snd (create_processed_agent_data accept_all [record7, record7] initial))"
    by simp
  show ?thesis
    using ok C3_publish_after_commit[OF ok run] unfolding create_two_at_initial by simp
qed


section \<open>What the dispatcher is given\<close>




section \<open>Failures while delivering\<close>















section \<open>Validation of the request body\<close>

lemma validate_body_invalid_item:
  "validate_item b = Inl e \<Longrightarrow> \<exists>e'. validate_body (pre @ b # post) = Inl e'"
  by (induction pre) (auto split: sum.splits)

lemma post_invalid_item:
  "validate_item b = Inl e \<Longrightarrow>
   post_processed_agent_data accepts (pre @ b # post) st = (Inl RequestValidationError, st)"
  using validate_body_invalid_item[of b e pre post]
  by (auto simp: post_processed_agent_data_def)

lemma validate_item_not_a_date:
  "raw_timestamp (raw_agent_data b) = RawStr ''not-a-date'' \<Longrightarrow> validate_item b = Inl ValueError"
  by (simp add: validate_item_def check_timestamp_not_a_date)



lemma create_one_quiet:
  assumes "accepts (db_item (next_id (database st)) item)"
  shows "rows (database (snd (create_processed_agent_data accepts [item] st)))
           = rows (database st) @ [db_item (next_id (database st)) item]"
    and "subscriptions st (user_id (agent_data item)) = None
         \<or> subscriptions st (user_id (agent_data item)) = Some [] \<Longrightarrow>
           fst (create_processed_agent_data accepts [item] st) = Inr ()"
  using assms
  by (simp_all add: add_commit_refresh_def send_data_model Let_def)

text \<open>
  C4. A create request with an item whose timestamp is the string \<^verbatim>\<open>not-a-date\<close> is
  rejected with a validation error and leaves the whole state as it was: no row, no call
  of the dispatcher, no frame. A request whose item has the timestamp
  \<^verbatim>\<open>2024-01-01T12:00:00\<close> passes validation with the timestamp parsed to noon of that
  day, its row is stored when the engine commits it, and the answer is the success one when
  nobody listens to the agent.
\<close>

theorem C4_timestamp_validation:
  "(raw_timestamp (raw_agent_data bad) = RawStr ''not-a-date''
      \<longrightarrow> check_timestamp (raw_timestamp (raw_agent_data bad)) = Inl ValueError
        \<and> post_processed_agent_data accepts (pre @ bad # post) st = (Inl RequestValidationError, st))
   \<and> (raw_timestamp (raw_agent_data good) = RawStr ''2024-01-01T12:00:00''
      \<longrightarrow> check_timestamp (raw_timestamp (raw_agent_data good)) = Inr noon
        \<and> (\<exists>item. validate_body [good] = Inr [item] \<and> timestamp (agent_data item) = noon
            \<and> (accepts (db_item (next_id (database st)) item)
                \<longrightarrow> rows (database (snd (post_processed_agent_data accepts [good] st)))
                      = rows (database st) @ [db_item (next_id (database st)) item]
                    \<and> (subscriptions st (user_id (agent_data item)) = None
                          \<or> subscriptions st (user_id (agent_data item)) = Some []
                         \<longrightarrow> fst (post_processed_agent_data accepts [good] st) = Inr ()))))"
proof (intro conjI impI)
  assume b: "raw_timestamp (raw_agent_data bad) = RawStr ''not-a-date''"
  then show "check_timestamp (raw_timestamp (raw_agent_data bad)) = Inl ValueError"
    by (simp add: check_timestamp_not_a_date)
  from b show "post_processed_agent_data accepts (pre @ bad # post) st = (Inl RequestValidationError, st)"
    by (rule post_invalid_item[OF validate_item_not_a_date])
next
  assume g: "raw_timestamp (raw_agent_data good) = RawStr ''2024-01-01T12:00:00''"
  then show "check_timestamp (raw_timestamp (raw_agent_data good)) = Inr noon"
    by (simp add: check_timestamp_noon)
  let ?item = "\<lparr>road_state = raw_road_state good,
                 agent_data = \<lparr>user_id = raw_user_id (raw_agent_data good),
                    accelerometer = raw_accelerometer (raw_agent_data good),
                    gps = raw_gps (raw_agent_data good), timestamp = noon\<rparr>\<rparr>"
  have v: "validate_body [good] = Inr [?item]"
    using g by (simp add: validate_item_def check_timestamp_noon)
  have p: "post_processed_agent_data accepts [good] st = create_processed_agent_data accepts [?item] st"
    using v by (simp add: post_processed_agent_data_def)
  show "\<exists>item. validate_body [good] = Inr [item] \<and> timestamp (agent_data item) = noon
            \<and> (accepts (db_item (next_id (database st)) item)
                \<longrightarrow> rows (database (snd (post_processed_agent_data accepts [good] st)))
                      = rows (database st) @ [db_item (next_id (database st)) item]
                    \<and> (subscriptions st (user_id (agent_data item)) = None
                          \<or> subscriptions st (user_id (agent_data item)) = Some []
                         \<longrightarrow> fst (post_processed_agent_data accepts [good] st) = Inr ()))"
    unfolding p using v create_one_quiet[of accepts st ?item]
    by (intro exI[of _ ?item]) simp
qed

text \<open>The theorem of C4 at requests for agent 7 on the empty table.\<close>

theorem C4_timestamp_validation_witness:
  "post_processed_agent_data accept_all [good7, bad7] initial = (Inl RequestValidationError, initial)
   \<and> check_timestamp (RawStr ''not-a-date'') = Inl ValueError
   \<and> check_timestamp (RawStr ''2024-01-01T12:00:00'') = Inr noon
   \<and> (\<exists>item. validate_body [body_with 7 (RawStr ''2024-01-01T12:00:00'')] = Inr [item]
         \<and> timestamp (agent_data item) = noon
         \<and> rows (database (snd (post_processed_agent_data accept_all
                                    [body_with 7 (RawStr ''2024-01-01T12:00:00'')] initial)))
              = [db_item 1 item]
         \<and> fst (post_processed_agent_data accept_all
                   [body_with 7 (RawStr ''2024-01-01T12:00:00'')] initial) = Inr ())"
  using C4_timestamp_validation[of bad7 accept_all "[good7]" "[]" initial
          "body_with 7 (RawStr ''2024-01-01T12:00:00'')"]
  by (simp add: bad7_def body_with_def accept_all_def initial_simps)

section \<open>Batches\<close>







section \<open>Leaving the registry\<close>







section \<open>Update\<close>






section \<open>Create, then read; ids\<close>

























end
